theory Spec2Isabelle
  imports Main "HOL-Library.Char_ord" "HOL-Library.List_Lexorder" "HOL-Library.Multiset"
begin

section \<open>React element trees\<close>

text \<open>
  A page component of the blog is a JavaScript function from its props to a JSX
  expression. The value of a JSX expression is a tree of elements: a tag or component
  name, the attributes written on it, and the children. Components such as
  \<^verbatim>\<open>Layout\<close>, \<^verbatim>\<open>Head\<close>, \<^verbatim>\<open>Link\<close> and \<^verbatim>\<open>Date\<close> stay unexpanded in that value, as they do
  in what the page function returns. An attribute is a string, or a bare flag such as
  \<^verbatim>\<open>home\<close> in \<^verbatim>\<open><Layout home></Layout>\<close>. The \<^verbatim>\<open>key\<close> of an element is kept with its attributes.
\<close>

datatype attr = Str string | Flag

datatype jsx = El string "(string \<times> attr) list" "jsx list" | Txt string

text \<open>All elements with a given tag below (and including) a node, in document order.\<close>

fun elements :: "string \<Rightarrow> jsx \<Rightarrow> jsx list" where
  "elements tag (Txt s) = []"
| "elements tag (El name attrs children) =
     (if name = tag then [El name attrs children] else []) @ concat (map (elements tag) children)"

section \<open>The home page (pages/index.js)\<close>

text \<open>
  Modelled from the spec: the shape of one entry of the listing, which no source file
  declares. "PostMetadata: { id: PostId, title: string, date: ISO-8601 date string,
  [other front-matter fields passed through verbatim as a string-keyed mapping] }." The
  page reads the fields \<^verbatim>\<open>id\<close>, \<^verbatim>\<open>date\<close> and \<^verbatim>\<open>title\<close> of each entry; every other
  front-matter field travels along in \<open>extra\<close>. The field \<^verbatim>\<open>id\<close> is \<open>post_id\<close> here,
  since \<open>id\<close> is HOL's identity function.
\<close>

record PostMetadata =
  post_id :: string
  title :: string
  date :: string
  extra :: "(string \<times> string) list"

text \<open>
  \<^verbatim>\<open>utilStyles\<close> is the CSS module \<^verbatim>\<open>styles/utils.module.css\<close>: the class names it
  exports are not part of the page's code, so they are a parameter.
\<close>

record utilStyles =
  headingMd :: string
  headingLg :: string
  padding1px :: string
  list :: string
  listItem :: string
  lightText :: string

record home_props =
  allPostsData :: "PostMetadata list"

record 'p static_props =
  props :: 'p

text \<open>
  \<^verbatim>\<open>
  export async function getStaticProps() {
    const allPostsData = getSortedPostsData();
    return { props: { allPostsData } };
  }
  \<close>
  \<^verbatim>\<open>getSortedPostsData\<close> is imported from \<^verbatim>\<open>lib/posts\<close>; the outcome of the call (an
  exception of any kind \<open>'e\<close>, or an array) is the parameter. The function catches
  nothing, so an exception leaves \<^verbatim>\<open>getStaticProps\<close> as it came.
\<close>

definition getStaticProps :: "'e + PostMetadata list \<Rightarrow> 'e + home_props static_props" where
  "getStaticProps getSortedPostsData =
     (case getSortedPostsData of
        Inl e \<Rightarrow> Inl e
      | Inr posts \<Rightarrow> Inr \<lparr>props = \<lparr>allPostsData = posts\<rparr>\<rparr>)"

text \<open>
  The callback of \<^verbatim>\<open>allPostsData.map\<close>:
  \<^verbatim>\<open>
  ({ id, date, title }) => (
    <li className={utilStyles.listItem} key={id}>
      <Link href={`/posts/${id}`}>
        <a>{title}</a>
      </Link>
      <br />
      <small className={utilStyles.lightText}>
        <Date dateString={date} />
      </small>
    </li>
  )
  \<close>
\<close>

definition postItem :: "utilStyles \<Rightarrow> PostMetadata \<Rightarrow> jsx" where
  "postItem st p =
     El ''li'' [(''className'', Str (listItem st)), (''key'', Str (post_id p))]
       [El ''Link'' [(''href'', Str (''/posts/'' @ post_id p))]
          [El ''a'' [] [Txt (title p)]],
        El ''br'' [] [],
        El ''small'' [(''className'', Str (lightText st))]
          [El ''Date'' [(''dateString'', Str (date p))] []]]"

text \<open>
  The two paragraphs above the list. A run of JSX text is trimmed at its line breaks and
  its lines are joined by one space; \<^verbatim>\<open>{' '}\<close> is a child of its own. The apostrophe of
  the second paragraph is U+2019, three bytes in UTF-8.
\<close>

definition intro :: "utilStyles \<Rightarrow> jsx" where
  "intro st =
     El ''section'' [(''className'', Str (headingMd st))]
       [El ''p'' []
          [Txt (''Hello, I'' @ [CHR 0x27] @ ''m Rama. I'' @ [CHR 0x27] @
                ''m a Software Engineer and a Translator(English/Hindi). You can contact me on Twitter.''),
           Txt '' ''],
        El ''p'' []
          [Txt (''(This is a sample website - you'' @ [CHR 0xE2, CHR 0x80, CHR 0x99] @
                ''ll be building a site like this on''),
           Txt '' '',
           El ''a'' [(''href'', Str ''https://nextjs.org/learn'')] [Txt ''our Next.js tutorial''],
           Txt ''.)'']]"

text \<open>
  \<^verbatim>\<open>export default function Home({ allPostsData })\<close>. \<^verbatim>\<open>siteTitle\<close> is exported by
  \<^verbatim>\<open>components/layout\<close> and is a parameter.
\<close>

definition Home :: "utilStyles \<Rightarrow> string \<Rightarrow> home_props \<Rightarrow> jsx" where
  "Home st siteTitle ps =
     El ''Layout'' [(''home'', Flag)]
       [El ''Head'' [] [El ''title'' [] [Txt siteTitle]],
        intro st,
        El ''section'' [(''className'', Str (headingMd st @ '' '' @ padding1px st))]
          [El ''h2'' [(''className'', Str (headingLg st))] [Txt ''Blog''],
           El ''ul'' [(''className'', Str (list st))]
             (map (postItem st) (allPostsData ps))]]"

section \<open>The API route (pages/api/hello.js)\<close>

text \<open>
  The request and the response of an API route, as Next.js hands them to the handler
  (\<^verbatim>\<open>req.method\<close> is \<open>httpMethod\<close> here). Of the response the model keeps what the
  handler can change: the status code and the payload sent. The two helpers are the
  framework's: \<^verbatim>\<open>res.status(code)\<close> sets the code and returns the response, so that
  calls chain; \<^verbatim>\<open>res.json(obj)\<close> sends the object as the JSON payload.
\<close>

datatype json = JString string | JObject "(string \<times> json) list"

record request =
  httpMethod :: string
  headers :: "(string \<times> string) list"
  body :: string

record response =
  statusCode :: nat
  sent :: "json option"

definition status :: "nat \<Rightarrow> response \<Rightarrow> response" where
  "status code res = res\<lparr>statusCode := code\<rparr>"

definition json :: "json \<Rightarrow> response \<Rightarrow> response" where
  "json obj res = res\<lparr>sent := Some obj\<rparr>"

text \<open>
  \<^verbatim>\<open>
  export default function handler(req, res) {
    res.status(200).json({ text: 'Hello' });
  }
  \<close>
  The handler returns nothing; its effect is the state it leaves the response in.
\<close>

definition handler :: "request \<Rightarrow> response \<Rightarrow> response" where
  "handler req res = json (JObject [(''text'', JString ''Hello'')]) (status 200 res)"

section \<open>The listing of the post store\<close>

text \<open>
  The page imports \<^verbatim>\<open>getSortedPostsData\<close> from \<^verbatim>\<open>lib/posts\<close>, a file that is not among
  the sources. The specification calls the operation \<^verbatim>\<open>listPostsSortedByDateDesc\<close> and
  describes it step by step; the definitions of this section follow that description.
\<close>

text \<open>
  Modelled from the spec: the error kinds of the post store, which no source file
  declares. "\<open>StorageError\<close>: content directory unreadable, or a required front-matter
  field absent/malformed in a file being processed. \<open>NotFoundError\<close>: requested PostId has
  no corresponding file. \<open>RenderError\<close> (optional)."
\<close>

datatype error = StorageError | NotFoundError | RenderError

type_synonym front_matter = "(string \<times> string) list"

text \<open>
  Modelled from the spec: a content file of the content directory, which no source file
  declares. "One file per post, file base name = PostId, file contents = a front-matter
  block followed by a markdown body."
\<close>

record content_file =
  fileName :: string
  contents :: string

text \<open>
  Modelled from the spec: the derivation of a PostId, part of the missing
  \<^verbatim>\<open>lib/posts\<close>. "Derived 1:1 from a content file's base name (extension removed)": the
  name up to its last dot, the whole name when it has no dot.
\<close>

definition postId :: "string \<Rightarrow> string" where
  "postId name =
     (if CHR ''.'' \<in> set name
      then rev (tl (dropWhile (\<lambda>c. c \<noteq> CHR ''.'') (rev name)))
      else name)"

text \<open>
  Modelled from the spec: reading one file, part of the missing \<^verbatim>\<open>lib/posts\<close>. "Read
  it, split into front-matter block and body, parse the front-matter as a structured
  key/value mapping, attach the derived PostId." The header syntax is an external
  contract, so the splitter \<open>matter\<close> is a parameter: it gives the key/value pairs and
  the body, or nothing when the front-matter is malformed. \<open>title\<close> and \<open>date\<close> are
  required, "\<open>date\<close> must be parseable as a calendar date; \<open>title\<close> must be non-empty"
  (the test of a date is the parameter \<open>validDate\<close>), and the other fields are passed
  through. A file that does not meet this is a \<open>StorageError\<close>.
\<close>

definition parsePost ::
  "(string \<Rightarrow> (front_matter \<times> string) option) \<Rightarrow> (string \<Rightarrow> bool) \<Rightarrow> content_file
     \<Rightarrow> error + PostMetadata" where
  "parsePost matter validDate f =
     (case matter (contents f) of
        None \<Rightarrow> Inl StorageError
      | Some (fm, markdown) \<Rightarrow>
          (case map_of fm ''title'' of
             None \<Rightarrow> Inl StorageError
           | Some t \<Rightarrow>
               (case map_of fm ''date'' of
                  None \<Rightarrow> Inl StorageError
                | Some d \<Rightarrow>
                    if t \<noteq> [] \<and> validDate d
                    then Inr \<lparr>post_id = postId (fileName f), title = t, date = d,
                              extra = filter (\<lambda>kv. fst kv \<noteq> ''title'' \<and> fst kv \<noteq> ''date'') fm\<rparr>
                    else Inl StorageError)))"

text \<open>
  Modelled from the spec: the loop over the files, part of the missing \<^verbatim>\<open>lib/posts\<close>.
  "A single malformed file fails the whole listing rather than silently omitting it."
\<close>

fun parseAll ::
  "(string \<Rightarrow> (front_matter \<times> string) option) \<Rightarrow> (string \<Rightarrow> bool) \<Rightarrow> content_file list
     \<Rightarrow> error + PostMetadata list" where
  "parseAll matter validDate [] = Inr []"
| "parseAll matter validDate (f # fs) =
     (case parsePost matter validDate f of
        Inl e \<Rightarrow> Inl e
      | Inr p \<Rightarrow>
          (case parseAll matter validDate fs of
             Inl e \<Rightarrow> Inl e
           | Inr ps \<Rightarrow> Inr (p # ps)))"

text \<open>
  Modelled from the spec: the order of the listing, part of the missing \<^verbatim>\<open>lib/posts\<close>.
  "Sort the resulting collection by \<open>date\<close> descending (most recent first); ties broken by
  PostId ascending." Dates and ids are strings and compare as strings do, character by
  character. \<open>listedBefore a b\<close>: \<open>a\<close> may stand before \<open>b\<close>.
\<close>

definition listedBefore :: "PostMetadata \<Rightarrow> PostMetadata \<Rightarrow> bool" where
  "listedBefore a b = (date b < date a \<or> (date a = date b \<and> post_id a \<le> post_id b))"

text \<open>
  Modelled from the spec: the sort itself, part of the missing \<^verbatim>\<open>lib/posts\<close>. The
  specification names no algorithm; this one puts each entry into its place in the
  sorted rest.
\<close>

fun place :: "PostMetadata \<Rightarrow> PostMetadata list \<Rightarrow> PostMetadata list" where
  "place p [] = [p]"
| "place p (q # qs) = (if listedBefore p q then p # q # qs else q # place p qs)"

fun sortByDateDesc :: "PostMetadata list \<Rightarrow> PostMetadata list" where
  "sortByDateDesc [] = []"
| "sortByDateDesc (p # ps) = place p (sortByDateDesc ps)"

text \<open>
  Modelled from the spec: \<^verbatim>\<open>listPostsSortedByDateDesc\<close>, the \<^verbatim>\<open>getSortedPostsData\<close> of the
  missing \<^verbatim>\<open>lib/posts\<close>. The content directory is the list of its files in scan order, or
  nothing when it is "missing or unreadable", which is a \<open>StorageError\<close>. What happens
  when two files have the same PostId is an open question of the specification and is
  not decided here: both entries are listed.
\<close>

definition listPostsSortedByDateDesc ::
  "(string \<Rightarrow> (front_matter \<times> string) option) \<Rightarrow> (string \<Rightarrow> bool) \<Rightarrow> content_file list option
     \<Rightarrow> error + PostMetadata list" where
  "listPostsSortedByDateDesc matter validDate dir =
     (case dir of
        None \<Rightarrow> Inl StorageError
      | Some files \<Rightarrow>
          (case parseAll matter validDate files of
             Inl e \<Rightarrow> Inl e
           | Inr ps \<Rightarrow> Inr (sortByDateDesc ps)))"

text \<open>
  Sample data: a splitter that knows the texts of three files by a table (the third has
  no \<open>date\<close>), and a test of the shape \<^verbatim>\<open>YYYY-MM-DD\<close>.
\<close>

definition sampleMatter :: "string \<Rightarrow> (front_matter \<times> string) option" where
  "sampleMatter text =
     (if text = ''text of a'' then Some ([(''title'', ''A''), (''date'', ''2020-01-01'')], ''# A'')
      else if text = ''text of b'' then Some ([(''title'', ''B''), (''date'', ''2021-06-01'')], ''# B'')
      else if text = ''text of c'' then Some ([(''title'', ''C'')], ''# C'')
      else None)"

definition isDigit :: "char \<Rightarrow> bool" where
  "isDigit c = (CHR ''0'' \<le> c \<and> c \<le> CHR ''9'')"

fun ymdShape :: "string \<Rightarrow> bool" where
  "ymdShape [y1, y2, y3, y4, s1, m1, m2, s2, d1, d2] =
     (isDigit y1 \<and> isDigit y2 \<and> isDigit y3 \<and> isDigit y4 \<and> s1 = CHR ''-'' \<and>
      isDigit m1 \<and> isDigit m2 \<and> s2 = CHR ''-'' \<and> isDigit d1 \<and> isDigit d2)"
| "ymdShape other = False"

section \<open>The home page lists the posts it is given\<close>

lemma elements_li_postItem: "elements ''li'' (postItem st p) = [postItem st p]"
  by (simp add: postItem_def)

lemma elements_ul_postItem: "elements ''ul'' (postItem st p) = []"
  by (simp add: postItem_def)

lemma elements_li_items:
  "concat (map (elements ''li'') (map (postItem st) ps)) = map (postItem st) ps"
  by (induction ps) (simp_all add: elements_li_postItem)

lemma elements_ul_items: "concat (map (elements ''ul'') (map (postItem st) ps)) = []"
  by (induction ps) (simp_all add: elements_ul_postItem)

lemma elements_li_intro: "elements ''li'' (intro st) = []"
  by (simp add: intro_def)

lemma elements_ul_intro: "elements ''ul'' (intro st) = []"
  by (simp add: intro_def)

lemma elements_li_Home: "elements ''li'' (Home st t ps) = map (postItem st) (allPostsData ps)"
  by (simp add: Home_def elements_li_intro elements_li_items del: map_map)

lemma elements_ul_Home:
  "elements ''ul'' (Home st t ps) =
     [El ''ul'' [(''className'', Str (list st))] (map (postItem st) (allPostsData ps))]"
  by (simp add: Home_def elements_ul_intro elements_ul_items del: map_map)

text \<open>
  Claim C10. \<^verbatim>\<open>getStaticProps\<close> hands the sequence that \<^verbatim>\<open>getSortedPostsData\<close> returned
  to the page as it is. The page has one list, whose children are all the list items of
  the page: one per element of the sequence, in the order of the sequence, each with the
  post's id as its key, a link to \<^verbatim>\<open>/posts/{id}\<close> around the post's title, and the
  post's date.
\<close>

theorem home_lists_every_post_in_order:
  "getStaticProps (Inr posts) = Inr \<lparr>props = \<lparr>allPostsData = posts\<rparr>\<rparr> \<and>
   elements ''ul'' (Home st siteTitle \<lparr>allPostsData = posts\<rparr>) =
     [El ''ul'' [(''className'', Str (list st))]
        (elements ''li'' (Home st siteTitle \<lparr>allPostsData = posts\<rparr>))] \<and>
   elements ''li'' (Home st siteTitle \<lparr>allPostsData = posts\<rparr>) =
     map (\<lambda>p. El ''li'' [(''className'', Str (listItem st)), (''key'', Str (post_id p))]
                [El ''Link'' [(''href'', Str (''/posts/'' @ post_id p))]
                   [El ''a'' [] [Txt (title p)]],
                 El ''br'' [] [],
                 El ''small'' [(''className'', Str (lightText st))]
                   [El ''Date'' [(''dateString'', Str (date p))] []]])
         posts \<and>
   length (elements ''li'' (Home st siteTitle \<lparr>allPostsData = posts\<rparr>)) = length posts"
proof -
  have items: "map (postItem st) posts =
     map (\<lambda>p. El ''li'' [(''className'', Str (listItem st)), (''key'', Str (post_id p))]
                [El ''Link'' [(''href'', Str (''/posts/'' @ post_id p))]
                   [El ''a'' [] [Txt (title p)]],
                 El ''br'' [] [],
                 El ''small'' [(''className'', Str (lightText st))]
                   [El ''Date'' [(''dateString'', Str (date p))] []]])
         posts"
    by (simp add: postItem_def)
  have passed: "getStaticProps (Inr posts) = Inr \<lparr>props = \<lparr>allPostsData = posts\<rparr>\<rparr>"
    by (simp add: getStaticProps_def)
  have li: "elements ''li'' (Home st siteTitle \<lparr>allPostsData = posts\<rparr>) = map (postItem st) posts"
    by (simp add: elements_li_Home)
  have ul: "elements ''ul'' (Home st siteTitle \<lparr>allPostsData = posts\<rparr>) =
     [El ''ul'' [(''className'', Str (list st))] (map (postItem st) posts)]"
    by (simp add: elements_ul_Home)
  from li have len: "length (elements ''li'' (Home st siteTitle \<lparr>allPostsData = posts\<rparr>)) = length posts"
    by simp
  from passed ul li len items show ?thesis
    by (simp only: simp_thms)
qed

section \<open>The API route answers Hello\<close>

lemma handler_response:
  "handler req res = \<lparr>statusCode = 200, sent = Some (JObject [(''text'', JString ''Hello'')])\<rparr>"
  by (simp add: handler_def json_def status_def)

text \<open>
  Claim C9. Whatever the request (method, headers, body) and whatever state the response
  is in, the handler leaves the response with status 200 and the JSON payload
  \<^verbatim>\<open>{ text: 'Hello' }\<close>. Two requests get the same answer, so nothing of the request is
  read. The handler has neither a branch nor a \<^verbatim>\<open>throw\<close>: it has no failing outcome.
\<close>

theorem handler_always_hello:
  "statusCode (handler req res) = 200 \<and>
   sent (handler req res) = Some (JObject [(''text'', JString ''Hello'')]) \<and>
   handler req res = handler req' res"
  by (simp add: handler_response)

section \<open>The listing is sorted\<close>

lemma listedBefore_total: "listedBefore a b \<or> listedBefore b a"
  by (auto simp: listedBefore_def)

lemma listedBefore_trans: "listedBefore a b \<Longrightarrow> listedBefore b c \<Longrightarrow> listedBefore a c"
  by (auto simp: listedBefore_def)

lemma listedBefore_dates:
  "listedBefore a b \<Longrightarrow> date b \<le> date a \<and> (date a = date b \<longrightarrow> post_id a \<le> post_id b)"
  by (auto simp: listedBefore_def)

lemma set_place: "set (place p qs) = insert p (set qs)"
  by (induction qs) auto

lemma mset_place: "mset (place p qs) = add_mset p (mset qs)"
  by (induction qs) auto

lemma sorted_place: "sorted_wrt listedBefore qs \<Longrightarrow> sorted_wrt listedBefore (place p qs)"
  using listedBefore_total listedBefore_trans
  by (induction qs) (auto simp: set_place)

lemma sorted_sortByDateDesc: "sorted_wrt listedBefore (sortByDateDesc ps)"
  by (induction ps) (auto simp: sorted_place)

text \<open>Sorting neither drops nor invents an entry.\<close>

lemma mset_sortByDateDesc: "mset (sortByDateDesc ps) = mset ps"
  by (induction ps) (auto simp: mset_place)

lemma listing_sorted_wrt:
  "listPostsSortedByDateDesc matter validDate dir = Inr ps \<Longrightarrow> sorted_wrt listedBefore ps"
  by (auto simp: listPostsSortedByDateDesc_def sorted_sortByDateDesc
           split: option.splits sum.splits)

lemma listing_two_files:
  assumes "parsePost matter validDate a = Inr pa" and "parsePost matter validDate b = Inr pb"
    and "date pa < date pb"
  shows "listPostsSortedByDateDesc matter validDate (Some [a, b]) = Inr [pb, pa]"
    and "listPostsSortedByDateDesc matter validDate (Some [b, a]) = Inr [pb, pa]"
  using assms by (auto simp: listPostsSortedByDateDesc_def listedBefore_def)

text \<open>
  Claim C1. Whenever the listing returns a sequence, each entry's date is at least the date
  of the entry after it, and two neighbours of equal date stand in ascending order of
  PostId. In particular, when the directory holds the two files \<^verbatim>\<open>a.md\<close> (date
  2020-01-01) and \<^verbatim>\<open>b.md\<close> (date 2021-06-01), in either scan order, the listing is the
  entry of \<^verbatim>\<open>b\<close> followed by the entry of \<^verbatim>\<open>a\<close>.
\<close>

theorem listing_sorted_by_date_desc:
  "(listPostsSortedByDateDesc matter validDate dir = Inr ps \<longrightarrow>
      (\<forall>i. Suc i < length ps \<longrightarrow>
         date (ps ! Suc i) \<le> date (ps ! i) \<and>
         (date (ps ! i) = date (ps ! Suc i) \<longrightarrow> post_id (ps ! i) \<le> post_id (ps ! Suc i)))) \<and>
   (fileName a = ''a.md'' \<and> parsePost matter validDate a = Inr pa \<and> date pa = ''2020-01-01'' \<and>
    fileName b = ''b.md'' \<and> parsePost matter validDate b = Inr pb \<and> date pb = ''2021-06-01'' \<longrightarrow>
      listPostsSortedByDateDesc matter validDate (Some [a, b]) = Inr [pb, pa] \<and>
      listPostsSortedByDateDesc matter validDate (Some [b, a]) = Inr [pb, pa] \<and>
      map post_id [pb, pa] = [''b'', ''a''])"
proof (intro conjI impI allI)
  fix i
  assume run: "listPostsSortedByDateDesc matter validDate dir = Inr ps" and i: "Suc i < length ps"
  from run have "sorted_wrt listedBefore ps"
    by (rule listing_sorted_wrt)
  with i have pair: "listedBefore (ps ! i) (ps ! Suc i)"
    by (simp add: sorted_wrt_iff_nth_less)
  from pair show "date (ps ! Suc i) \<le> date (ps ! i)"
    by (simp add: listedBefore_dates)
  assume "date (ps ! i) = date (ps ! Suc i)"
  with pair show "post_id (ps ! i) \<le> post_id (ps ! Suc i)"
    by (simp add: listedBefore_dates)
next
  assume two: "fileName a = ''a.md'' \<and> parsePost matter validDate a = Inr pa \<and>
    date pa = ''2020-01-01'' \<and> fileName b = ''b.md'' \<and> parsePost matter validDate b = Inr pb \<and>
    date pb = ''2021-06-01''"
  then have older: "date pa < date pb"
    by simp
  from two older show "listPostsSortedByDateDesc matter validDate (Some [a, b]) = Inr [pb, pa]"
    by (simp add: listing_two_files)
  from two older show "listPostsSortedByDateDesc matter validDate (Some [b, a]) = Inr [pb, pa]"
    by (simp add: listing_two_files)
  from two have "post_id pa = postId ''a.md''" and "post_id pb = postId ''b.md''"
    by (auto simp: parsePost_def split: option.splits prod.splits if_splits)
  then show "map post_id [pb, pa] = [''b'', ''a'']"
    by (simp add: postId_def)
qed

text \<open>
  The sample directory of \<^verbatim>\<open>a.md\<close> and \<^verbatim>\<open>b.md\<close>: both parts of the theorem apply to it.
\<close>

theorem listing_sorted_by_date_desc_witness:
  "listPostsSortedByDateDesc sampleMatter ymdShape
     (Some [\<lparr>fileName = ''a.md'', contents = ''text of a''\<rparr>,
            \<lparr>fileName = ''b.md'', contents = ''text of b''\<rparr>]) =
     Inr [\<lparr>post_id = ''b'', title = ''B'', date = ''2021-06-01'', extra = []\<rparr>,
          \<lparr>post_id = ''a'', title = ''A'', date = ''2020-01-01'', extra = []\<rparr>] \<and>
   (''2020-01-01'' :: string) \<le> ''2021-06-01'' \<and>
   listPostsSortedByDateDesc sampleMatter ymdShape
     (Some [\<lparr>fileName = ''b.md'', contents = ''text of b''\<rparr>,
            \<lparr>fileName = ''a.md'', contents = ''text of a''\<rparr>]) =
     Inr [\<lparr>post_id = ''b'', title = ''B'', date = ''2021-06-01'', extra = []\<rparr>,
          \<lparr>post_id = ''a'', title = ''A'', date = ''2020-01-01'', extra = []\<rparr>]"
proof -
  let ?a = "\<lparr>fileName = ''a.md'', contents = ''text of a''\<rparr>"
  let ?b = "\<lparr>fileName = ''b.md'', contents = ''text of b''\<rparr>"
  let ?pa = "\<lparr>post_id = ''a'', title = ''A'', date = ''2020-01-01'', extra = []\<rparr>"
  let ?pb = "\<lparr>post_id = ''b'', title = ''B'', date = ''2021-06-01'', extra = []\<rparr>"
  have a: "parsePost sampleMatter ymdShape ?a = Inr ?pa"
    by (simp add: parsePost_def sampleMatter_def postId_def isDigit_def)
  have b: "parsePost sampleMatter ymdShape ?b = Inr ?pb"
    by (simp add: parsePost_def sampleMatter_def postId_def isDigit_def)
  note inst = listing_sorted_by_date_desc
    [of sampleMatter ymdShape "Some [?a, ?b]" "[?pb, ?pa]" ?a ?pa ?b ?pb]
  from inst a b have ab: "listPostsSortedByDateDesc sampleMatter ymdShape (Some [?a, ?b]) = Inr [?pb, ?pa]"
    and ba: "listPostsSortedByDateDesc sampleMatter ymdShape (Some [?b, ?a]) = Inr [?pb, ?pa]"
    by simp_all
  from inst ab have "\<forall>i. Suc i < length [?pb, ?pa] \<longrightarrow> date ([?pb, ?pa] ! Suc i) \<le> date ([?pb, ?pa] ! i)"
    by blast
  then have "date ([?pb, ?pa] ! Suc 0) \<le> date ([?pb, ?pa] ! 0)"
    by simp
  then have le: "(''2020-01-01'' :: string) \<le> ''2021-06-01''"
    by simp
  from ab le ba show ?thesis
    by (simp only: simp_thms)
qed

section \<open>One unreadable file fails the listing\<close>

lemma parsePost_error: "parsePost matter validDate f = Inl e \<Longrightarrow> e = StorageError"
  by (auto simp: parsePost_def split: option.splits prod.splits if_splits)

lemma parseAll_error: "parseAll matter validDate fs = Inl e \<Longrightarrow> e = StorageError"
  by (induction fs) (auto split: sum.splits dest: parsePost_error)

lemma parseAll_unparsable:
  "f \<in> set fs \<Longrightarrow> parsePost matter validDate f = Inl e \<Longrightarrow>
     parseAll matter validDate fs = Inl StorageError"
  by (induction fs) (auto split: sum.splits dest: parsePost_error parseAll_error)

lemma parsePost_unparsable:
  assumes "matter (contents f) = None \<or>
     (\<exists>fm markdown. matter (contents f) = Some (fm, markdown) \<and>
        (map_of fm ''title'' = None \<or> map_of fm ''date'' = None))"
  shows "parsePost matter validDate f = Inl StorageError"
  using assms by (auto simp: parsePost_def split: option.splits)

text \<open>
  Claim C4. When one file of the directory cannot be parsed (its front-matter is
  malformed, or it has no \<open>title\<close>, or it has no \<open>date\<close>), the listing fails with
  \<open>StorageError\<close>: it returns no sequence, neither one without that file nor one of the
  other files.
\<close>

theorem listing_fails_on_unparsable_file:
  assumes "f \<in> set files"
    and "matter (contents f) = None \<or>
     (\<exists>fm markdown. matter (contents f) = Some (fm, markdown) \<and>
        (map_of fm ''title'' = None \<or> map_of fm ''date'' = None))"
  shows "listPostsSortedByDateDesc matter validDate (Some files) = Inl StorageError \<and>
    (\<forall>ps. listPostsSortedByDateDesc matter validDate (Some files) \<noteq> Inr ps)"
proof -
  from assms(2) have "parsePost matter validDate f = Inl StorageError"
    by (rule parsePost_unparsable)
  with assms(1) have "parseAll matter validDate files = Inl StorageError"
    by (rule parseAll_unparsable)
  then show ?thesis
    by (simp add: listPostsSortedByDateDesc_def)
qed

text \<open>
  The sample directory of \<^verbatim>\<open>a.md\<close>, which is well formed, and \<^verbatim>\<open>c.md\<close>, which has no
  \<open>date\<close>.
\<close>

theorem listing_fails_on_unparsable_file_witness:
  "\<lparr>fileName = ''c.md'', contents = ''text of c''\<rparr> \<in>
     set [\<lparr>fileName = ''a.md'', contents = ''text of a''\<rparr>,
          \<lparr>fileName = ''c.md'', contents = ''text of c''\<rparr>] \<and>
   sampleMatter ''text of c'' = Some ([(''title'', ''C'')], ''# C'') \<and>
   map_of [(''title'', ''C'')] ''date'' = None \<and>
   parsePost sampleMatter ymdShape \<lparr>fileName = ''a.md'', contents = ''text of a''\<rparr> =
     Inr \<lparr>post_id = ''a'', title = ''A'', date = ''2020-01-01'', extra = []\<rparr> \<and>
   listPostsSortedByDateDesc sampleMatter ymdShape
     (Some [\<lparr>fileName = ''a.md'', contents = ''text of a''\<rparr>,
            \<lparr>fileName = ''c.md'', contents = ''text of c''\<rparr>]) = Inl StorageError"
proof -
  let ?a = "\<lparr>fileName = ''a.md'', contents = ''text of a''\<rparr>"
  let ?c = "\<lparr>fileName = ''c.md'', contents = ''text of c''\<rparr>"
  have member: "?c \<in> set [?a, ?c]"
    by simp
  have header: "sampleMatter ''text of c'' = Some ([(''title'', ''C'')], ''# C'')"
    by (simp add: sampleMatter_def)
  have nodate: "map_of [(''title'', ''C'')] ''date'' = (None :: string option)"
    by simp
  have good: "parsePost sampleMatter ymdShape ?a =
      Inr \<lparr>post_id = ''a'', title = ''A'', date = ''2020-01-01'', extra = []\<rparr>"
    by (simp add: parsePost_def sampleMatter_def postId_def isDigit_def)
  from header nodate have unparsable: "sampleMatter (contents ?c) = None \<or>
     (\<exists>fm markdown. sampleMatter (contents ?c) = Some (fm, markdown) \<and>
        (map_of fm ''title'' = None \<or> map_of fm ''date'' = None))"
    by simp
  from listing_fails_on_unparsable_file
    [where f = ?c and files = "[?a, ?c]" and matter = sampleMatter and validDate = ymdShape,
     OF member unparsable]
  have "listPostsSortedByDateDesc sampleMatter ymdShape (Some [?a, ?c]) = Inl StorageError"
    by simp
  with member header nodate good show ?thesis
    by (simp only: simp_thms)
qed

end
